theory Spec2Isabelle
  imports Complex_Main "HOL-Library.Log_Nat"
begin

section \<open>Plans router: data model\<close>

text \<open>
  The router \<^verbatim>\<open>src/modules/plans/router.ts\<close> works on five tables of the database
  client. The table declarations are not part of the sources at hand; the rows below carry
  the columns that the router reads or writes and some of those that its test fills in.
  A table is the list of its rows in storage order.

  A JavaScript \<^verbatim>\<open>Date\<close> is its \<^verbatim>\<open>valueOf()\<close>: the milliseconds since the epoch, an
  integer. A price is a JavaScript number: a double, held as the real number it denotes.
  Identifiers are integers.
\<close>

type_synonym date = int

record user =
  user_id :: int
  user_isAdmin :: bool

record team =
  team_id :: int
  team_name :: string
  team_userId :: int

record subscription =
  subscription_id :: int
  subscription_teamId :: int
  subscription_planId :: int
  subscription_subscriptionType :: string
  subscription_createdAt :: date

record subscriptionActivation =
  activation_subscriptionId :: int
  activation_activationDate :: date
  activation_lastActiveDate :: date

record plan =
  plan_id :: int
  plan_name :: string
  plan_monthlyPrice :: real
  plan_yearlyPrice :: real
  plan_createdAt :: date
  plan_updatedAt :: "date option"

text \<open>
  The storage: the rows of every table in storage order, and whether the driver answers.
  A call to the driver on a storage that is not \<open>online\<close> throws.
\<close>

record db =
  online :: bool
  users :: "user list"
  teams :: "team list"
  subscriptions :: "subscription list"
  subscriptionActivations :: "subscriptionActivation list"
  plans :: "plan list"

subsection \<open>Errors\<close>

datatype code = BAD_REQUEST | FORBIDDEN | NOT_FOUND

text \<open>
  \<open>trpcError\<close> is the error the router throws itself; \<open>inputError\<close> is the rejection of
  an input by the procedure's zod schema, raised before the handler runs;
  \<open>storageError\<close> is an exception of the driver.
\<close>

datatype error = trpcError code string | inputError | storageError

subsection \<open>Asynchronous procedures over the storage\<close>

type_synonym 'a proc = "db \<Rightarrow> (error + 'a) \<times> db"

definition resolve :: "'a \<Rightarrow> 'a proc" where
  "resolve x s = (Inr x, s)"

definition throw :: "error \<Rightarrow> 'a proc" where
  "throw e s = (Inl e, s)"

definition await :: "'a proc \<Rightarrow> ('a \<Rightarrow> 'b proc) \<Rightarrow> 'b proc" where
  "await m k s = (case m s of (Inl e, s') \<Rightarrow> (Inl e, s') | (Inr x, s') \<Rightarrow> k x s')"

definition try_catch :: "'a proc \<Rightarrow> (error \<Rightarrow> 'a proc) \<Rightarrow> 'a proc" where
  "try_catch m h s = (case m s of (Inl e, s') \<Rightarrow> h e s' | (Inr x, s') \<Rightarrow> (Inr x, s'))"

text \<open>The driver: \<^verbatim>\<open>db.query.T.findFirst({where})\<close>, \<^verbatim>\<open>db.query.T.findMany()\<close>,
  \<^verbatim>\<open>db.insert(schema.plans).values(row)\<close> and \<^verbatim>\<open>db.update(schema.plans).set(f).where(w)\<close>.
  The two writes are those of a plans table that declares no constraint.\<close>

definition findFirst :: "(db \<Rightarrow> 'r list) \<Rightarrow> ('r \<Rightarrow> bool) \<Rightarrow> 'r option proc" where
  "findFirst table wh s =
     (if online s then (Inr (find wh (table s)), s) else (Inl storageError, s))"

definition findMany :: "(db \<Rightarrow> 'r list) \<Rightarrow> 'r list proc" where
  "findMany table s = (if online s then (Inr (table s), s) else (Inl storageError, s))"

definition insert_plans :: "plan \<Rightarrow> unit proc" where
  "insert_plans row s =
     (if online s then (Inr (), s\<lparr>plans := plans s @ [row]\<rparr>) else (Inl storageError, s))"

definition update_plans :: "(plan \<Rightarrow> plan) \<Rightarrow> (plan \<Rightarrow> bool) \<Rightarrow> unit proc" where
  "update_plans st wh s =
     (if online s
      then (Inr (), s\<lparr>plans := map (\<lambda>p. if wh p then st p else p) (plans s)\<rparr>)
      else (Inl storageError, s))"

section \<open>The procedures\<close>

text \<open>
  \<open>get\<close> is a public procedure. \<open>getUpgrade\<close>, \<open>create\<close> and \<open>update\<close> are protected
  procedures: they are modelled from the point where the context carries the authenticated
  user. A procedure with an input schema parses its input before its handler runs.
\<close>

subsection \<open>get\<close>

text \<open>The catch branch also writes a line to the console, which is not part of the model.\<close>

definition get :: "plan list proc" where
  "get = try_catch (await (findMany plans) (\<lambda>plans. resolve plans)) (\<lambda>error. resolve [])"

subsection \<open>getUpgrade\<close>

record ctx_user =
  userId :: int

record getUpgrade_input =
  teamId :: int
  planId :: int

record upgrade =
  currentPlan :: plan
  newPlan :: plan
  daysRemaining :: int
  priceDifference :: real
  upgradingPrice :: real

subsection \<open>JavaScript numbers\<close>

text \<open>
  A number is an IEEE 754 binary64 value, held as the real number it denotes. \<open>fl\<close> rounds
  a real number to the nearest such value, a tie going to the even significand: the result
  is a multiple of \<open>2 powi (e - 52)\<close> where \<open>2 powi e \<le> \<bar>x\<bar> < 2 powi (e + 1)\<close>, and of
  \<open>2 powi (- 1074)\<close> below the normal range. The operators \<^verbatim>\<open>-\<close>, \<^verbatim>\<open>/\<close> and \<^verbatim>\<open>*\<close>
  compute the exact result and round it. Infinities, \<^verbatim>\<open>NaN\<close> and the sign of zero are not
  part of the model.
\<close>

definition exponent :: "real \<Rightarrow> int" where
  "exponent x =
     (let a = \<bar>x\<bar>
      in if 1 \<le> a then bitlen \<lfloor>a\<rfloor> - 1 else - bitlen (\<lceil>1 / a\<rceil> - 1))"

definition roundTiesToEven :: "real \<Rightarrow> int" where
  "roundTiesToEven y =
     (let n = \<lfloor>y\<rfloor>
      in if y - of_int n < 1 / 2 then n
         else if 1 / 2 < y - of_int n then n + 1
         else if even n then n else n + 1)"

definition fl :: "real \<Rightarrow> real" where
  "fl x =
     (if x = 0 then 0
      else let q = 2 powi (max (exponent x) (- 1022) - 52)
           in q * of_int (roundTiesToEven (x / q)))"

definition js_sub :: "real \<Rightarrow> real \<Rightarrow> real" where
  "js_sub a b = fl (a - b)"

definition js_div :: "real \<Rightarrow> real \<Rightarrow> real" where
  "js_div a b = fl (a / b)"

definition js_mul :: "real \<Rightarrow> real \<Rightarrow> real" where
  "js_mul a b = fl (a * b)"

text \<open>\<^verbatim>\<open>Math.round\<close>: the nearest integer, a tie going up.\<close>

definition Math_round :: "real \<Rightarrow> int" where
  "Math_round x = \<lfloor>x + 1 / 2\<rfloor>"

text \<open>
  The handler reads the clock twice: \<open>now1\<close> is the \<^verbatim>\<open>new Date()\<close> of the activation
  query, \<open>now2\<close> the \<^verbatim>\<open>new Date()\<close> of the computation of \<open>daysRemaining\<close>.
\<close>

definition getUpgrade :: "date \<Rightarrow> date \<Rightarrow> ctx_user \<Rightarrow> getUpgrade_input \<Rightarrow> upgrade proc" where
  "getUpgrade now1 now2 user input =
     await (findFirst teams (\<lambda>t. team_id t = teamId input)) (\<lambda>team.
     case team of
       None \<Rightarrow> throw (trpcError BAD_REQUEST ''Invalid teamId'')
     | Some team \<Rightarrow>
     if team_userId team \<noteq> userId user
     then throw (trpcError FORBIDDEN ''You don't have access to the team'')
     else
     await (findFirst subscriptions (\<lambda>sb. subscription_teamId sb = teamId input))
       (\<lambda>subscription.
     case subscription of
       None \<Rightarrow> throw (trpcError NOT_FOUND ''The team doesn't have subscription'')
     | Some subscription \<Rightarrow>
     await (findFirst subscriptionActivations
              (\<lambda>a. activation_subscriptionId a = subscription_id subscription
                  \<and> now1 \<le> activation_lastActiveDate a))
       (\<lambda>subscriptionActivation.
     case subscriptionActivation of
       None \<Rightarrow> throw (trpcError BAD_REQUEST ''Subscription not active'')
     | Some subscriptionActivation \<Rightarrow>
     await (findFirst plans (\<lambda>p. plan_id p = planId input)) (\<lambda>newPlan.
     await (findFirst plans (\<lambda>p. plan_id p = subscription_planId subscription))
       (\<lambda>currentPlan.
     case (newPlan, currentPlan) of
       (Some new, Some current) \<Rightarrow>
         if plan_monthlyPrice new < plan_monthlyPrice current
         then throw (trpcError BAD_REQUEST
                       ''Unable to calculate the price for downgrading plan'')
         else
           let daysRemaining =
                 Math_round
                   (js_div
                      (js_sub (of_int (activation_lastActiveDate subscriptionActivation))
                         (of_int now2))
                      (24 * 60 * 60 * 1000));
               priceDifference =
                 js_sub (plan_monthlyPrice new) (plan_monthlyPrice current);
               upgradingPrice = js_mul (js_div priceDifference 30) (of_int daysRemaining)
           in resolve \<lparr>currentPlan = current, newPlan = new,
                        daysRemaining = daysRemaining,
                        priceDifference = priceDifference,
                        upgradingPrice = upgradingPrice\<rparr>
     | _ \<Rightarrow> throw (trpcError BAD_REQUEST ''Invalid plan''))))))"

subsection \<open>create and update\<close>

record create_input =
  name :: string
  monthlyPrice :: real
  yearlyPrice :: real

record update_input = create_input +
  id' :: int

record ack =
  success :: bool

text \<open>
  The zod schemas: \<^verbatim>\<open>z.string()\<close> takes any string, \<^verbatim>\<open>z.number().nonnegative()\<close> a
  number that is not below 0, \<^verbatim>\<open>z.number()\<close> any number.
\<close>

definition create_schema :: "create_input \<Rightarrow> bool" where
  "create_schema input \<longleftrightarrow> 0 \<le> monthlyPrice input \<and> 0 \<le> yearlyPrice input"

definition update_schema :: "update_input \<Rightarrow> bool" where
  "update_schema input \<longleftrightarrow> 0 \<le> monthlyPrice input \<and> 0 \<le> yearlyPrice input"

text \<open>
  \<open>now\<close> is the \<^verbatim>\<open>new Date()\<close> of the handler. The primary key of an inserted row is
  chosen by the storage engine: \<open>newId\<close>. The handlers take the write operation of the plans
  table as a parameter, since the declaration of the table is not among the sources;
  \<open>create\<close> and \<open>update\<close> are the handlers on the table that declares no constraint.
\<close>

definition create_on ::
  "(plan \<Rightarrow> unit proc) \<Rightarrow> date \<Rightarrow> int \<Rightarrow> ctx_user \<Rightarrow> create_input \<Rightarrow> ack proc" where
  "create_on ins now newId user input =
     (if \<not> create_schema input then throw inputError
      else
      await (findFirst users (\<lambda>u. user_id u = userId user)) (\<lambda>userInDb.
      if \<not> (case userInDb of None \<Rightarrow> False | Some u \<Rightarrow> user_isAdmin u)
      then throw (trpcError FORBIDDEN ''Only admin allowed to access'')
      else
      await (ins
               \<lparr>plan_id = newId, plan_name = name input,
                plan_monthlyPrice = monthlyPrice input,
                plan_yearlyPrice = yearlyPrice input,
                plan_createdAt = now, plan_updatedAt = None\<rparr>) (\<lambda>_.
      resolve \<lparr>success = True\<rparr>)))"

definition update_on ::
  "((plan \<Rightarrow> plan) \<Rightarrow> (plan \<Rightarrow> bool) \<Rightarrow> unit proc)
    \<Rightarrow> date \<Rightarrow> ctx_user \<Rightarrow> update_input \<Rightarrow> ack proc" where
  "update_on upd now user input =
     (if \<not> update_schema input then throw inputError
      else
      await (findFirst users (\<lambda>u. user_id u = userId user)) (\<lambda>userInDb.
      if \<not> (case userInDb of None \<Rightarrow> False | Some u \<Rightarrow> user_isAdmin u)
      then throw (trpcError FORBIDDEN ''Only admin allowed to access'')
      else
      await (upd
               (\<lambda>p. p\<lparr>plan_updatedAt := Some now, plan_name := name input,
                       plan_monthlyPrice := monthlyPrice input,
                       plan_yearlyPrice := yearlyPrice input\<rparr>)
               (\<lambda>p. plan_id p = id' input)) (\<lambda>_.
      resolve \<lparr>success = True\<rparr>)))"

definition create :: "date \<Rightarrow> int \<Rightarrow> ctx_user \<Rightarrow> create_input \<Rightarrow> ack proc" where
  "create = create_on insert_plans"

definition update :: "date \<Rightarrow> ctx_user \<Rightarrow> update_input \<Rightarrow> ack proc" where
  "update = update_on update_plans"

subsection \<open>The plans table with unique names\<close>

text \<open>
  Modelled from the spec: the declaration of the plans table, which is not among the
  sources. Spec 3 gives a plan a unique name; a table that declares the name unique refuses
  a write after which two rows would carry the same name: the driver throws and the table
  stays as it was.
\<close>

definition insert_plans_unique :: "plan \<Rightarrow> unit proc" where
  "insert_plans_unique row s =
     (if online s \<and> plan_name row \<notin> set (map plan_name (plans s))
      then (Inr (), s\<lparr>plans := plans s @ [row]\<rparr>)
      else (Inl storageError, s))"

definition update_plans_unique :: "(plan \<Rightarrow> plan) \<Rightarrow> (plan \<Rightarrow> bool) \<Rightarrow> unit proc" where
  "update_plans_unique st wh s =
     (let rows = map (\<lambda>p. if wh p then st p else p) (plans s)
      in if online s \<and> distinct (map plan_name rows)
         then (Inr (), s\<lparr>plans := rows\<rparr>)
         else (Inl storageError, s))"

text \<open>A sequence of calls to create and update on that table, and the storage it leaves.\<close>

datatype plan_write =
  Create date int ctx_user create_input
| Update date ctx_user update_input

fun run_writes :: "plan_write list \<Rightarrow> db \<Rightarrow> db" where
  "run_writes [] s = s"
| "run_writes (Create now newId user input # ws) s =
     run_writes ws (snd (create_on insert_plans_unique now newId user input s))"
| "run_writes (Update now user input # ws) s =
     run_writes ws (snd (update_on update_plans_unique now user input s))"

section \<open>The spec's notion of an active subscription\<close>

text \<open>
  The spec's words, to compare with the activation query of the handler: a subscription is
  active at \<open>now\<close> iff at least one of its activation records has
  \<open>lastActiveDate \<ge> now\<close>.
\<close>

definition spec_active :: "date \<Rightarrow> subscription \<Rightarrow> db \<Rightarrow> bool" where
  "spec_active now sub s \<longleftrightarrow>
     (\<exists>a \<in> set (subscriptionActivations s).
        activation_subscriptionId a = subscription_id sub
        \<and> now \<le> activation_lastActiveDate a)"

section \<open>A storage to run the procedures on\<close>

text \<open>
  The storage of the router's test when it asks for the upgrade quote, read at time \<open>0\<close>:
  three plans, the team of user 1 with its monthly subscription to the plan Plus and an
  activation that lasts 14 more days, and a second team without a subscription. User 1 is
  an administrator, user 2 is not.
\<close>

definition day :: int where
  "day = 86400000"

definition basic_plan :: plan where
  "basic_plan = \<lparr>plan_id = 1, plan_name = ''Basic'', plan_monthlyPrice = 29,
                  plan_yearlyPrice = 279, plan_createdAt = 0, plan_updatedAt = Some 0\<rparr>"

definition plus_plan :: plan where
  "plus_plan = \<lparr>plan_id = 2, plan_name = ''Plus'', plan_monthlyPrice = 59,
                 plan_yearlyPrice = 599, plan_createdAt = 0, plan_updatedAt = None\<rparr>"

definition premium_plan :: plan where
  "premium_plan = \<lparr>plan_id = 3, plan_name = ''Premium'', plan_monthlyPrice = 199,
                    plan_yearlyPrice = 1999, plan_createdAt = 0, plan_updatedAt = None\<rparr>"

definition super_team :: team where
  "super_team = \<lparr>team_id = 1, team_name = ''SuperTeam'', team_userId = 1\<rparr>"

definition monthly_subscription :: subscription where
  "monthly_subscription =
     \<lparr>subscription_id = 1, subscription_teamId = 1, subscription_planId = 2,
      subscription_subscriptionType = ''monthly'', subscription_createdAt = 0\<rparr>"

definition activation :: subscriptionActivation where
  "activation = \<lparr>activation_subscriptionId = 1, activation_activationDate = 0,
                  activation_lastActiveDate = 14 * day\<rparr>"

definition test_db :: db where
  "test_db =
     \<lparr>online = True,
      users = [\<lparr>user_id = 1, user_isAdmin = True\<rparr>, \<lparr>user_id = 2, user_isAdmin = False\<rparr>],
      teams = [super_team, \<lparr>team_id = 2, team_name = ''Idle'', team_userId = 1\<rparr>],
      subscriptions = [monthly_subscription],
      subscriptionActivations = [activation],
      plans = [basic_plan, plus_plan, premium_plan]\<rparr>"

lemmas test_db_simps =
  test_db_def day_def basic_plan_def plus_plan_def premium_plan_def super_team_def
  monthly_subscription_def activation_def

section \<open>Running a procedure\<close>

lemma await_findFirst:
  "online s \<Longrightarrow> await (findFirst table wh) k s = k (find wh (table s)) s"
  by (simp add: await_def findFirst_def)

lemma await_findFirst_offline:
  "\<not> online s \<Longrightarrow> await (findFirst table wh) k s = (Inl storageError, s)"
  by (simp add: await_def findFirst_def)

lemma await_insert_plans:
  "online s \<Longrightarrow> await (insert_plans row) k s = k () (s\<lparr>plans := plans s @ [row]\<rparr>)"
  by (simp add: await_def insert_plans_def)

lemma await_update_plans:
  "online s \<Longrightarrow>
   await (update_plans st wh) k s
     = k () (s\<lparr>plans := map (\<lambda>p. if wh p then st p else p) (plans s)\<rparr>)"
  by (simp add: await_def update_plans_def)

lemmas getUpgrade_run = getUpgrade_def await_findFirst throw_def resolve_def Let_def

lemmas write_run =
  create_def update_def create_on_def update_on_def await_findFirst await_insert_plans await_update_plans
  throw_def resolve_def

lemma find_SomeD: "find P xs = Some x \<Longrightarrow> x \<in> set xs \<and> P x"
  by (auto simp add: find_Some_iff)

subsection \<open>Rounding\<close>

lemma Math_round_nearest:
  "of_int (Math_round x) - 1 / 2 \<le> x \<and> x < of_int (Math_round x) + 1 / 2"
  unfolding Math_round_def by linarith

lemma Math_round_nonneg: "- (1 / 2) \<le> x \<Longrightarrow> 0 \<le> Math_round x"
  unfolding Math_round_def by simp

lemma fl_0: "fl 0 = 0"
  by (simp add: fl_def)

lemmas js_zero = js_sub_def js_div_def js_mul_def fl_0

lemmas js_eval =
  js_sub_def js_div_def js_mul_def fl_def exponent_def roundTiesToEven_def compute_bitlen
  Math_round_def

lemma roundTiesToEven_ge: "of_int n \<le> y \<Longrightarrow> n \<le> roundTiesToEven y"
proof -
  assume "of_int n \<le> y"
  then have "n \<le> \<lfloor>y\<rfloor>" by (simp add: le_floor_iff)
  moreover have "\<lfloor>y\<rfloor> \<le> roundTiesToEven y"
    by (simp add: roundTiesToEven_def Let_def)
  ultimately show ?thesis by simp
qed

lemma roundTiesToEven_of_int: "roundTiesToEven (of_int n) = n"
  by (simp add: roundTiesToEven_def)

text \<open>\<open>fl\<close> does not go below a value of the grid it rounds to.\<close>

lemma fl_ge_grid:
  assumes "of_int k * 2 powi m \<le> x"
    and "max (exponent x) (- 1022) - 52 \<le> m"
  shows "of_int k * 2 powi m \<le> fl x"
proof (cases "x = 0")
  case True
  with assms(1) show ?thesis by (simp add: fl_0)
next
  case False
  define j where "j = max (exponent x) (- 1022) - 52"
  define q :: real where "q = 2 powi j"
  have q: "0 < q" by (simp add: q_def)
  have jm: "j \<le> m" using assms(2) by (simp add: j_def)
  have "(2::real) powi m = 2 powi j * 2 powi (m - j)"
    by (simp add: power_int_add [symmetric])
  also have "(2::real) powi (m - j) = 2 ^ nat (m - j)"
    using jm by (simp add: power_int_def)
  finally have grid: "of_int k * 2 powi m = q * of_int (k * 2 ^ nat (m - j))"
    by (simp add: q_def)
  from assms(1) grid have "q * of_int (k * 2 ^ nat (m - j)) \<le> x" by simp
  with q have "of_int (k * 2 ^ nat (m - j)) \<le> x / q"
    by (simp add: pos_le_divide_eq mult.commute)
  then have "k * 2 ^ nat (m - j) \<le> roundTiesToEven (x / q)"
    by (rule roundTiesToEven_ge)
  then have "(of_int (k * 2 ^ nat (m - j)) :: real) \<le> of_int (roundTiesToEven (x / q))"
    by (simp only: of_int_le_iff)
  with q have "q * of_int (k * 2 ^ nat (m - j)) \<le> q * of_int (roundTiesToEven (x / q))"
    by (simp only: mult_le_cancel_left_pos)
  moreover have "fl x = q * of_int (roundTiesToEven (x / q))"
    using False by (simp add: fl_def q_def j_def Let_def)
  ultimately show ?thesis unfolding grid by simp
qed

lemma fl_nonneg: "0 \<le> x \<Longrightarrow> 0 \<le> fl x"
proof (cases "x = 0")
  case True
  then show ?thesis by (simp add: fl_0)
next
  case False
  assume "0 \<le> x"
  then have "of_int 0 \<le> x / 2 powi (max (exponent x) (- 1022) - 52)" by simp
  then have "0 \<le> roundTiesToEven (x / 2 powi (max (exponent x) (- 1022) - 52))"
    by (rule roundTiesToEven_ge)
  then show ?thesis using False by (simp add: fl_def Let_def)
qed

lemma exponent_less:
  assumes "\<bar>x\<bar> < 2 ^ n" and "0 < n"
  shows "exponent x < int n"
proof (cases "1 \<le> \<bar>x\<bar>")
  case True
  define z where "z = \<lfloor>\<bar>x\<bar>\<rfloor>"
  have z: "0 < z" using True by (simp add: z_def)
  have "z < 2 ^ n"
    using assms(1) unfolding z_def by (simp add: floor_less_iff)
  moreover from bitlen_bounds [OF z] have "2 ^ nat (bitlen z - 1) \<le> z" by simp
  ultimately have "(2::int) ^ nat (bitlen z - 1) < 2 ^ n" by linarith
  then have "nat (bitlen z - 1) < n" by simp
  then have "bitlen z - 1 < int n" by linarith
  with True show ?thesis by (simp add: exponent_def z_def Let_def)
next
  case False
  have "0 \<le> bitlen (\<lceil>1 / \<bar>x\<bar>\<rceil> - 1)" by (rule bitlen_nonneg)
  with False assms(2) show ?thesis by (simp add: exponent_def Let_def)
qed

text \<open>
  A bound from below that is not positive and lies on the grid of every number up to its
  own size is kept by \<open>fl\<close>.
\<close>

lemma fl_ge_bound:
  assumes le: "of_int k * 2 powi m \<le> x"
    and k: "k \<le> 0"
    and size: "\<bar>of_int k * 2 powi m :: real\<bar> < 2 ^ n" "0 < n"
    and m: "int n - 53 \<le> m" "- 1074 \<le> m"
  shows "of_int k * 2 powi m \<le> fl x"
proof (cases "0 \<le> x")
  case True
  have "of_int k * (2::real) powi m \<le> 0"
    using k by (simp add: mult_le_0_iff)
  also have "0 \<le> fl x" using True by (rule fl_nonneg)
  finally show ?thesis .
next
  case False
  with le have "\<bar>x\<bar> \<le> \<bar>of_int k * 2 powi m :: real\<bar>" by linarith
  with size(1) have "\<bar>x\<bar> < 2 ^ n" by linarith
  then have "exponent x < int n" using size(2) by (rule exponent_less)
  with m have "max (exponent x) (- 1022) - 52 \<le> m" by simp
  with le show ?thesis by (rule fl_ge_grid)
qed

text \<open>An integer below \<open>2 ^ 53\<close> in size is a double: the difference of two dates is exact.\<close>

lemma fl_of_int:
  assumes "\<bar>d\<bar> < 2 ^ 53"
  shows "fl (of_int d) = of_int d"
proof (cases "d = 0")
  case True
  then show ?thesis by (simp add: fl_0)
next
  case False
  define x :: real where "x = of_int d"
  define j where "j = max (exponent x) (- 1022) - 52"
  have "\<bar>x\<bar> < 2 ^ 53" using assms unfolding x_def
    by (metis of_int_abs of_int_less_numeral_power_cancel_iff)
  then have "exponent x < 53" using exponent_less [of x 53] by simp
  then have j: "j \<le> 0" by (simp add: j_def)
  then have pj: "(2::real) powi j = 1 / 2 ^ nat (- j)"
    by (simp add: power_int_def power_one_over inverse_eq_divide)
  then have "x / 2 powi j = of_int (d * 2 ^ nat (- j))"
    by (simp add: x_def)
  then have "roundTiesToEven (x / 2 powi j) = d * 2 ^ nat (- j)"
    by (simp only: roundTiesToEven_of_int)
  moreover have "fl x = 2 powi j * of_int (roundTiesToEven (x / 2 powi j))"
    using False by (simp add: fl_def x_def j_def Let_def)
  ultimately have "fl x = 2 powi j * of_int (d * 2 ^ nat (- j))" by simp
  also have "\<dots> = x"
    by (simp add: x_def pj)
  finally show ?thesis by (simp add: x_def)
qed

lemma js_sub_dates:
  "\<bar>a - b\<bar> < 2 ^ 53 \<Longrightarrow> js_sub (of_int a) (of_int b) = of_int (a - b)"
  using fl_of_int [of "a - b"] by (simp add: js_sub_def)

text \<open>
  The days that remain are not negative when the activation ends no more than half a day
  before the clock of the computation.
\<close>

lemma days_nonneg:
  assumes "- 43200000 \<le> lastActive - now"
  shows "0 \<le> Math_round (js_div (js_sub (of_int lastActive) (of_int now)) 86400000)"
proof -
  from assms have "of_int (- 43200000) * 2 powi 0 \<le> (of_int lastActive - of_int now :: real)"
    by simp
  then have "of_int (- 43200000) * 2 powi 0 \<le> fl (of_int lastActive - of_int now)"
    by (rule fl_ge_bound [where n = 26]) simp_all
  then have "of_int (- 1) * 2 powi (- 1) \<le> js_sub (of_int lastActive) (of_int now) / 86400000"
    by (simp add: js_sub_def)
  then have "of_int (- 1) * 2 powi (- 1) \<le> fl (js_sub (of_int lastActive) (of_int now) / 86400000)"
    by (rule fl_ge_bound [where n = 1]) simp_all
  then have "- (1 / 2) \<le> js_div (js_sub (of_int lastActive) (of_int now)) 86400000"
    by (simp add: js_div_def)
  then show ?thesis by (rule Math_round_nonneg)
qed

section \<open>The upgrade quote\<close>

text \<open>
  C1. A call to getUpgrade that passes the six checks (the team exists and belongs to the
  requester, the team has a subscription, an activation of it has
  \<open>lastActiveDate \<ge> now\<close>, both plans exist, the new plan's monthly price is not below the
  current one's) returns exactly the two plan records,
  \<open>daysRemaining = round ((lastActiveDate - now) / 86400000)\<close>,
  \<open>priceDifference = newPlan.monthlyPrice - currentPlan.monthlyPrice\<close> and
  \<open>upgradingPrice = (priceDifference / 30) * daysRemaining\<close>, each operator being the one
  of JavaScript numbers, applied in this order. The rounding is to the nearest integer (at
  most one half away from the quotient), neither floor nor ceiling. The activation is the
  first one in storage order that the query admits; the \<open>now\<close> of the check is the first
  reading of the clock, the \<open>now\<close> of the quotient the second.
\<close>

theorem getUpgrade_quote:
  assumes "online s"
    and "find (\<lambda>t. team_id t = teamId input) (teams s) = Some team"
    and "team_userId team = userId user"
    and "find (\<lambda>sb. subscription_teamId sb = teamId input) (subscriptions s) = Some sub"
    and "find (\<lambda>a. activation_subscriptionId a = subscription_id sub
                    \<and> now1 \<le> activation_lastActiveDate a)
           (subscriptionActivations s) = Some act"
    and "find (\<lambda>p. plan_id p = planId input) (plans s) = Some new"
    and "find (\<lambda>p. plan_id p = subscription_planId sub) (plans s) = Some cur"
    and "plan_monthlyPrice cur \<le> plan_monthlyPrice new"
  shows "fst (getUpgrade now1 now2 user input s) =
           Inr \<lparr>currentPlan = cur, newPlan = new,
                daysRemaining =
                  Math_round
                    (js_div (js_sub (of_int (activation_lastActiveDate act)) (of_int now2))
                       86400000),
                priceDifference = js_sub (plan_monthlyPrice new) (plan_monthlyPrice cur),
                upgradingPrice =
                  js_mul
                    (js_div (js_sub (plan_monthlyPrice new) (plan_monthlyPrice cur)) 30)
                    (of_int
                      (Math_round
                        (js_div
                          (js_sub (of_int (activation_lastActiveDate act)) (of_int now2))
                          86400000)))\<rparr>
         \<and> \<bar>of_int
              (Math_round
                (js_div (js_sub (of_int (activation_lastActiveDate act)) (of_int now2))
                   86400000))
            - js_div (js_sub (of_int (activation_lastActiveDate act)) (of_int now2))
                86400000\<bar> \<le> 1 / 2"
proof
  show "fst (getUpgrade now1 now2 user input s) =
           Inr \<lparr>currentPlan = cur, newPlan = new,
                daysRemaining =
                  Math_round
                    (js_div (js_sub (of_int (activation_lastActiveDate act)) (of_int now2))
                       86400000),
                priceDifference = js_sub (plan_monthlyPrice new) (plan_monthlyPrice cur),
                upgradingPrice =
                  js_mul
                    (js_div (js_sub (plan_monthlyPrice new) (plan_monthlyPrice cur)) 30)
                    (of_int
                      (Math_round
                        (js_div
                          (js_sub (of_int (activation_lastActiveDate act)) (of_int now2))
                          86400000)))\<rparr>"
    using assms by (simp add: getUpgrade_run)
next
  show "\<bar>of_int
              (Math_round
                (js_div (js_sub (of_int (activation_lastActiveDate act)) (of_int now2))
                   86400000))
            - js_div (js_sub (of_int (activation_lastActiveDate act)) (of_int now2))
                86400000\<bar> \<le> 1 / 2"
    using Math_round_nearest
      [of "js_div (js_sub (of_int (activation_lastActiveDate act)) (of_int now2)) 86400000"]
    by linarith
qed

text \<open>
  The quote of the router's test: 14 days left, from 59 to 199 a month, so 140 of
  difference, and \<^verbatim>\<open>(140 / 30) * 14\<close> to pay, which is the double 65.33333333333334.
  Dividing last, \<^verbatim>\<open>(140 * 14) / 30\<close>, would give the double below it.
\<close>

theorem getUpgrade_quote_witness:
  "fst (getUpgrade 0 0 \<lparr>userId = 1\<rparr> \<lparr>teamId = 1, planId = 3\<rparr> test_db) =
     Inr \<lparr>currentPlan = plus_plan, newPlan = premium_plan,
          daysRemaining = 14, priceDifference = 140,
          upgradingPrice = 2298712309803691 / 35184372088832\<rparr>
   \<and> js_div (js_mul 140 14) 30 = 4597424619607381 / 70368744177664"
proof -
  have h: "online test_db"
    "find (\<lambda>t. team_id t = teamId \<lparr>teamId = 1, planId = 3\<rparr>) (teams test_db)
       = Some super_team"
    "team_userId super_team = userId \<lparr>userId = 1\<rparr>"
    "find (\<lambda>sb. subscription_teamId sb = teamId \<lparr>teamId = 1, planId = 3\<rparr>)
       (subscriptions test_db) = Some monthly_subscription"
    "find (\<lambda>a. activation_subscriptionId a = subscription_id monthly_subscription
               \<and> 0 \<le> activation_lastActiveDate a)
       (subscriptionActivations test_db) = Some activation"
    "find (\<lambda>p. plan_id p = planId \<lparr>teamId = 1, planId = 3\<rparr>) (plans test_db)
       = Some premium_plan"
    "find (\<lambda>p. plan_id p = subscription_planId monthly_subscription) (plans test_db)
       = Some plus_plan"
    "plan_monthlyPrice plus_plan \<le> plan_monthlyPrice premium_plan"
    by (simp_all add: test_db_simps)
  have days: "Math_round (js_div (js_sub 1209600000 0) 86400000) = 14"
    by (simp add: js_eval)
  have diff: "js_sub 199 59 = 140"
    by (simp add: js_eval)
  have price: "js_mul (js_div 140 30) 14 = 2298712309803691 / 35184372088832"
    by (simp add: js_eval)
  have other: "js_div (js_mul 140 14) 30 = 4597424619607381 / 70368744177664"
    by (simp add: js_eval)
  from getUpgrade_quote [OF h, of 0, THEN conjunct1] days diff price
  have "fst (getUpgrade 0 0 \<lparr>userId = 1\<rparr> \<lparr>teamId = 1, planId = 3\<rparr> test_db) =
     Inr \<lparr>currentPlan = plus_plan, newPlan = premium_plan,
          daysRemaining = 14, priceDifference = 140,
          upgradingPrice = 2298712309803691 / 35184372088832\<rparr>"
    by (simp add: activation_def plus_plan_def premium_plan_def day_def)
  from this other show ?thesis ..
qed

section \<open>The order of the checks\<close>

text \<open>
  C2. getUpgrade runs its checks in the order team, ownership, subscription, activation,
  plans, downgrade, and the first check that fails decides the error: an unknown teamId
  gives BAD_REQUEST "Invalid teamId" before anything else is looked at; a team of another
  user gives FORBIDDEN "You don't have access to the team" whatever the subscriptions,
  activations and plans are; and each later error needs all earlier checks passed.
\<close>

theorem getUpgrade_validation_order:
  assumes "online s"
  shows
    "(find (\<lambda>t. team_id t = teamId input) (teams s) = None \<longrightarrow>
        fst (getUpgrade now1 now2 user input s) = Inl (trpcError BAD_REQUEST ''Invalid teamId''))
   \<and> (\<forall>team.
        find (\<lambda>t. team_id t = teamId input) (teams s) = Some team
        \<and> team_userId team \<noteq> userId user \<longrightarrow>
        fst (getUpgrade now1 now2 user input s) =
          Inl (trpcError FORBIDDEN ''You don't have access to the team''))
   \<and> (\<forall>team.
        find (\<lambda>t. team_id t = teamId input) (teams s) = Some team
        \<and> team_userId team = userId user
        \<and> find (\<lambda>sb. subscription_teamId sb = teamId input) (subscriptions s) = None \<longrightarrow>
        fst (getUpgrade now1 now2 user input s) =
          Inl (trpcError NOT_FOUND ''The team doesn't have subscription''))
   \<and> (\<forall>team sub.
        find (\<lambda>t. team_id t = teamId input) (teams s) = Some team
        \<and> team_userId team = userId user
        \<and> find (\<lambda>sb. subscription_teamId sb = teamId input) (subscriptions s) = Some sub
        \<and> find (\<lambda>a. activation_subscriptionId a = subscription_id sub
                    \<and> now1 \<le> activation_lastActiveDate a)
             (subscriptionActivations s) = None \<longrightarrow>
        fst (getUpgrade now1 now2 user input s) =
          Inl (trpcError BAD_REQUEST ''Subscription not active''))
   \<and> (\<forall>team sub act.
        find (\<lambda>t. team_id t = teamId input) (teams s) = Some team
        \<and> team_userId team = userId user
        \<and> find (\<lambda>sb. subscription_teamId sb = teamId input) (subscriptions s) = Some sub
        \<and> find (\<lambda>a. activation_subscriptionId a = subscription_id sub
                    \<and> now1 \<le> activation_lastActiveDate a)
             (subscriptionActivations s) = Some act
        \<and> (find (\<lambda>p. plan_id p = planId input) (plans s) = None
           \<or> find (\<lambda>p. plan_id p = subscription_planId sub) (plans s) = None) \<longrightarrow>
        fst (getUpgrade now1 now2 user input s) =
          Inl (trpcError BAD_REQUEST ''Invalid plan''))
   \<and> (\<forall>team sub act new cur.
        find (\<lambda>t. team_id t = teamId input) (teams s) = Some team
        \<and> team_userId team = userId user
        \<and> find (\<lambda>sb. subscription_teamId sb = teamId input) (subscriptions s) = Some sub
        \<and> find (\<lambda>a. activation_subscriptionId a = subscription_id sub
                    \<and> now1 \<le> activation_lastActiveDate a)
             (subscriptionActivations s) = Some act
        \<and> find (\<lambda>p. plan_id p = planId input) (plans s) = Some new
        \<and> find (\<lambda>p. plan_id p = subscription_planId sub) (plans s) = Some cur
        \<and> plan_monthlyPrice new < plan_monthlyPrice cur \<longrightarrow>
        fst (getUpgrade now1 now2 user input s) =
          Inl (trpcError BAD_REQUEST ''Unable to calculate the price for downgrading plan''))"
  using assms
  by (auto simp add: getUpgrade_run split: option.splits)

text \<open>
  One call for each check, on the test storage: an unknown team; the team asked for by
  user 2; the team without subscription; the clock past the last active date; an unknown
  plan; the cheaper plan Basic.
\<close>

theorem getUpgrade_validation_order_witness:
  "fst (getUpgrade 0 0 \<lparr>userId = 1\<rparr> \<lparr>teamId = 7, planId = 3\<rparr> test_db)
     = Inl (trpcError BAD_REQUEST ''Invalid teamId'')
   \<and> fst (getUpgrade 0 0 \<lparr>userId = 2\<rparr> \<lparr>teamId = 1, planId = 3\<rparr> test_db)
     = Inl (trpcError FORBIDDEN ''You don't have access to the team'')
   \<and> fst (getUpgrade 0 0 \<lparr>userId = 1\<rparr> \<lparr>teamId = 2, planId = 3\<rparr> test_db)
     = Inl (trpcError NOT_FOUND ''The team doesn't have subscription'')
   \<and> fst (getUpgrade (15 * day) (15 * day) \<lparr>userId = 1\<rparr> \<lparr>teamId = 1, planId = 3\<rparr> test_db)
     = Inl (trpcError BAD_REQUEST ''Subscription not active'')
   \<and> fst (getUpgrade 0 0 \<lparr>userId = 1\<rparr> \<lparr>teamId = 1, planId = 12\<rparr> test_db)
     = Inl (trpcError BAD_REQUEST ''Invalid plan'')
   \<and> fst (getUpgrade 0 0 \<lparr>userId = 1\<rparr> \<lparr>teamId = 1, planId = 1\<rparr> test_db)
     = Inl (trpcError BAD_REQUEST ''Unable to calculate the price for downgrading plan'')"
proof -
  have on: "online test_db"
    by (simp add: test_db_def)
  note order = getUpgrade_validation_order [OF on]
  have c1: "fst (getUpgrade 0 0 \<lparr>userId = 1\<rparr> \<lparr>teamId = 7, planId = 3\<rparr> test_db)
              = Inl (trpcError BAD_REQUEST ''Invalid teamId'')"
    using order [of "\<lparr>teamId = 7, planId = 3\<rparr>" 0 0 "\<lparr>userId = 1\<rparr>", THEN conjunct1]
    by (simp add: test_db_simps)
  have c2: "fst (getUpgrade 0 0 \<lparr>userId = 2\<rparr> \<lparr>teamId = 1, planId = 3\<rparr> test_db)
              = Inl (trpcError FORBIDDEN ''You don't have access to the team'')"
    using order [of "\<lparr>teamId = 1, planId = 3\<rparr>" 0 0 "\<lparr>userId = 2\<rparr>",
        THEN conjunct2, THEN conjunct1, rule_format, of super_team]
    by (simp add: test_db_simps)
  have c3: "fst (getUpgrade 0 0 \<lparr>userId = 1\<rparr> \<lparr>teamId = 2, planId = 3\<rparr> test_db)
              = Inl (trpcError NOT_FOUND ''The team doesn't have subscription'')"
    using order [of "\<lparr>teamId = 2, planId = 3\<rparr>" 0 0 "\<lparr>userId = 1\<rparr>",
        THEN conjunct2, THEN conjunct2, THEN conjunct1, rule_format,
        of "\<lparr>team_id = 2, team_name = ''Idle'', team_userId = 1\<rparr>"]
    by (simp add: test_db_simps)
  have c4: "fst (getUpgrade (15 * day) (15 * day) \<lparr>userId = 1\<rparr> \<lparr>teamId = 1, planId = 3\<rparr>
                   test_db)
              = Inl (trpcError BAD_REQUEST ''Subscription not active'')"
    using order [of "\<lparr>teamId = 1, planId = 3\<rparr>" "15 * day" "15 * day" "\<lparr>userId = 1\<rparr>",
        THEN conjunct2, THEN conjunct2, THEN conjunct2, THEN conjunct1, rule_format,
        of super_team monthly_subscription]
    by (simp add: test_db_simps)
  have c5: "fst (getUpgrade 0 0 \<lparr>userId = 1\<rparr> \<lparr>teamId = 1, planId = 12\<rparr> test_db)
              = Inl (trpcError BAD_REQUEST ''Invalid plan'')"
    using order [of "\<lparr>teamId = 1, planId = 12\<rparr>" 0 0 "\<lparr>userId = 1\<rparr>",
        THEN conjunct2, THEN conjunct2, THEN conjunct2, THEN conjunct2, THEN conjunct1,
        rule_format, of super_team monthly_subscription activation]
    by (simp add: test_db_simps)
  have c6: "fst (getUpgrade 0 0 \<lparr>userId = 1\<rparr> \<lparr>teamId = 1, planId = 1\<rparr> test_db)
              = Inl (trpcError BAD_REQUEST
                       ''Unable to calculate the price for downgrading plan'')"
    using order [of "\<lparr>teamId = 1, planId = 1\<rparr>" 0 0 "\<lparr>userId = 1\<rparr>",
        THEN conjunct2, THEN conjunct2, THEN conjunct2, THEN conjunct2, THEN conjunct2,
        rule_format, of super_team monthly_subscription activation basic_plan plus_plan]
    by (simp add: test_db_simps)
  from c1 c2 c3 c4 c5 c6 show ?thesis
    by (intro conjI)
qed

section \<open>The downgrade guard\<close>

text \<open>
  C3. At the downgrade guard (all earlier checks passed), a new plan with a monthly price
  below the current one's is refused with BAD_REQUEST "Unable to calculate the price for
  downgrading plan", and only then; with equal monthly prices the call is not refused and
  returns a quote with \<open>priceDifference = 0\<close>.
\<close>

theorem getUpgrade_downgrade_guard:
  assumes "online s"
    and "find (\<lambda>t. team_id t = teamId input) (teams s) = Some team"
    and "team_userId team = userId user"
    and "find (\<lambda>sb. subscription_teamId sb = teamId input) (subscriptions s) = Some sub"
    and "find (\<lambda>a. activation_subscriptionId a = subscription_id sub
                    \<and> now1 \<le> activation_lastActiveDate a)
           (subscriptionActivations s) = Some act"
    and "find (\<lambda>p. plan_id p = planId input) (plans s) = Some new"
    and "find (\<lambda>p. plan_id p = subscription_planId sub) (plans s) = Some cur"
  shows "(fst (getUpgrade now1 now2 user input s) =
            Inl (trpcError BAD_REQUEST
                   ''Unable to calculate the price for downgrading plan'')
          \<longleftrightarrow> plan_monthlyPrice new < plan_monthlyPrice cur)
       \<and> (plan_monthlyPrice new = plan_monthlyPrice cur \<longrightarrow>
            (\<exists>q. fst (getUpgrade now1 now2 user input s) = Inr q
                \<and> currentPlan q = cur \<and> newPlan q = new
                \<and> priceDifference q = 0 \<and> upgradingPrice q = 0))"
  using assms by (simp add: getUpgrade_run js_zero)

text \<open>
  On the test storage: from Plus down to Basic is refused; from Plus to Plus costs 0.
\<close>

theorem getUpgrade_downgrade_guard_witness:
  "fst (getUpgrade 0 0 \<lparr>userId = 1\<rparr> \<lparr>teamId = 1, planId = 1\<rparr> test_db)
     = Inl (trpcError BAD_REQUEST ''Unable to calculate the price for downgrading plan'')
   \<and> fst (getUpgrade 0 0 \<lparr>userId = 1\<rparr> \<lparr>teamId = 1, planId = 2\<rparr> test_db)
     = Inr \<lparr>currentPlan = plus_plan, newPlan = plus_plan, daysRemaining = 14,
            priceDifference = 0, upgradingPrice = 0\<rparr>"
proof -
  have h: "online test_db"
    "find (\<lambda>t. team_id t = 1) (teams test_db) = Some super_team"
    "team_userId super_team = userId \<lparr>userId = 1\<rparr>"
    "find (\<lambda>sb. subscription_teamId sb = 1) (subscriptions test_db)
       = Some monthly_subscription"
    "find (\<lambda>a. activation_subscriptionId a = subscription_id monthly_subscription
               \<and> 0 \<le> activation_lastActiveDate a)
       (subscriptionActivations test_db) = Some activation"
    and basic: "find (\<lambda>p. plan_id p = 1) (plans test_db) = Some basic_plan"
    and plus: "find (\<lambda>p. plan_id p = 2) (plans test_db) = Some plus_plan"
    and cur: "find (\<lambda>p. plan_id p = subscription_planId monthly_subscription)
                (plans test_db) = Some plus_plan"
    by (simp_all add: test_db_simps)
  have down: "fst (getUpgrade 0 0 \<lparr>userId = 1\<rparr> \<lparr>teamId = 1, planId = 1\<rparr> test_db)
     = Inl (trpcError BAD_REQUEST ''Unable to calculate the price for downgrading plan'')"
    using getUpgrade_downgrade_guard
      [of test_db "\<lparr>teamId = 1, planId = 1\<rparr>" super_team "\<lparr>userId = 1\<rparr>"
          monthly_subscription 0 activation basic_plan plus_plan 0]
      h basic cur
    by (simp add: basic_plan_def plus_plan_def)
  have same: "fst (getUpgrade 0 0 \<lparr>userId = 1\<rparr> \<lparr>teamId = 1, planId = 2\<rparr> test_db)
     = Inr \<lparr>currentPlan = plus_plan, newPlan = plus_plan, daysRemaining = 14,
            priceDifference = 0, upgradingPrice = 0\<rparr>"
  proof -
    from getUpgrade_downgrade_guard
      [of test_db "\<lparr>teamId = 1, planId = 2\<rparr>" super_team "\<lparr>userId = 1\<rparr>"
          monthly_subscription 0 activation plus_plan plus_plan 0]
      h plus cur
    obtain q where q: "fst (getUpgrade 0 0 \<lparr>userId = 1\<rparr> \<lparr>teamId = 1, planId = 2\<rparr> test_db)
                         = Inr q"
      and "currentPlan q = plus_plan" "newPlan q = plus_plan"
      and "priceDifference q = 0" "upgradingPrice q = 0"
      by auto
    moreover have "Math_round (js_div (js_sub 1209600000 0) 86400000) = 14"
      by (simp add: js_eval)
    then have "daysRemaining q = 14"
      using q by (auto simp add: getUpgrade_run test_db_simps)
    ultimately show ?thesis
      by (cases q) simp
  qed
  from down same show ?thesis ..
qed

section \<open>Activity of a subscription\<close>

text \<open>
  C5. A subscription is active iff at least one of its activation records has
  \<open>lastActiveDate \<ge> now\<close>: once the team, its owner and its subscription are resolved,
  getUpgrade fails with BAD_REQUEST "Subscription not active" exactly when no activation
  record of that subscription has \<open>lastActiveDate \<ge> now\<close>. The activity is computed from
  the activation records and the clock of the call; no stored status is read.
\<close>

theorem getUpgrade_not_active_iff:
  assumes "online s"
    and "find (\<lambda>t. team_id t = teamId input) (teams s) = Some team"
    and "team_userId team = userId user"
    and "find (\<lambda>sb. subscription_teamId sb = teamId input) (subscriptions s) = Some sub"
  shows "fst (getUpgrade now1 now2 user input s) =
           Inl (trpcError BAD_REQUEST ''Subscription not active'')
         \<longleftrightarrow> \<not> spec_active now1 sub s"
proof (cases "find (\<lambda>a. activation_subscriptionId a = subscription_id sub
                       \<and> now1 \<le> activation_lastActiveDate a)
                (subscriptionActivations s)")
  case None
  then have "\<not> spec_active now1 sub s"
    by (simp add: spec_active_def find_None_iff)
  moreover have "fst (getUpgrade now1 now2 user input s) =
                   Inl (trpcError BAD_REQUEST ''Subscription not active'')"
    using assms None by (simp add: getUpgrade_run)
  ultimately show ?thesis by simp
next
  case (Some act)
  then have "spec_active now1 sub s"
    unfolding spec_active_def using find_SomeD [OF Some] by blast
  moreover have "fst (getUpgrade now1 now2 user input s) \<noteq>
                   Inl (trpcError BAD_REQUEST ''Subscription not active'')"
    using assms Some by (simp add: getUpgrade_run split: option.splits)
  ultimately show ?thesis by simp
qed

text \<open>
  The same storage is active when read on day 0 and not active when read on day 15.
\<close>

theorem getUpgrade_not_active_iff_witness:
  "spec_active 0 monthly_subscription test_db
   \<and> fst (getUpgrade 0 0 \<lparr>userId = 1\<rparr> \<lparr>teamId = 1, planId = 3\<rparr> test_db)
       \<noteq> Inl (trpcError BAD_REQUEST ''Subscription not active'')
   \<and> \<not> spec_active (15 * day) monthly_subscription test_db
   \<and> fst (getUpgrade (15 * day) 0 \<lparr>userId = 1\<rparr> \<lparr>teamId = 1, planId = 3\<rparr> test_db)
       = Inl (trpcError BAD_REQUEST ''Subscription not active'')"
proof -
  have h: "online test_db"
    "find (\<lambda>t. team_id t = teamId \<lparr>teamId = 1, planId = 3\<rparr>) (teams test_db)
       = Some super_team"
    "team_userId super_team = userId \<lparr>userId = 1\<rparr>"
    "find (\<lambda>sb. subscription_teamId sb = teamId \<lparr>teamId = 1, planId = 3\<rparr>)
       (subscriptions test_db) = Some monthly_subscription"
    by (simp_all add: test_db_simps)
  have a: "spec_active 0 monthly_subscription test_db"
    and b: "\<not> spec_active (15 * day) monthly_subscription test_db"
    by (simp_all add: spec_active_def test_db_simps)
  from a b getUpgrade_not_active_iff [OF h, of 0 0]
    getUpgrade_not_active_iff [OF h, of "15 * day" 0]
  show ?thesis by simp
qed

section \<open>getUpgrade is a pure quote\<close>

text \<open>
  C8. getUpgrade has no side effects: for every input, every reading of the clock and every
  storage state, the storage after the call is the storage before it, whether the call
  returns a quote or throws.
\<close>

theorem getUpgrade_storage_unchanged:
  "snd (getUpgrade now1 now2 user input s) = s"
proof (cases "online s")
  case True
  then show ?thesis
    by (simp add: getUpgrade_run split: option.splits)
next
  case False
  then show ?thesis
    by (simp add: getUpgrade_def await_findFirst_offline)
qed

theorem getUpgrade_storage_unchanged_witness:
  "snd (getUpgrade 0 0 \<lparr>userId = 1\<rparr> \<lparr>teamId = 1, planId = 3\<rparr> test_db) = test_db
   \<and> snd (getUpgrade 0 0 \<lparr>userId = 2\<rparr> \<lparr>teamId = 1, planId = 3\<rparr> test_db) = test_db"
  using getUpgrade_storage_unchanged [of 0 0 "\<lparr>userId = 1\<rparr>" "\<lparr>teamId = 1, planId = 3\<rparr>" test_db]
    getUpgrade_storage_unchanged [of 0 0 "\<lparr>userId = 2\<rparr>" "\<lparr>teamId = 1, planId = 3\<rparr>" test_db]
  by (rule conjI)

section \<open>The sign of the quote\<close>

lemma getUpgrade_InrD:
  assumes "fst (getUpgrade now1 now2 user input s) = Inr q"
  shows "plan_monthlyPrice (currentPlan q) \<le> plan_monthlyPrice (newPlan q)
       \<and> priceDifference q
           = js_sub (plan_monthlyPrice (newPlan q)) (plan_monthlyPrice (currentPlan q))
       \<and> upgradingPrice q
           = js_mul (js_div (priceDifference q) 30) (of_int (daysRemaining q))
       \<and> (\<exists>act :: subscriptionActivation. now1 \<le> activation_lastActiveDate act
              \<and> daysRemaining q =
                  Math_round
                    (js_div (js_sub (of_int (activation_lastActiveDate act)) (of_int now2))
                       86400000))"
proof (cases "online s")
  case False
  with assms show ?thesis
    by (simp add: getUpgrade_def await_findFirst_offline)
next
  case True
  with assms show ?thesis
    by (auto simp add: getUpgrade_run split: option.splits if_splits dest!: find_SomeD)
qed

text \<open>
  C9, as the spec has it: whenever getUpgrade succeeds, \<open>daysRemaining\<close>,
  \<open>priceDifference\<close> and \<open>upgradingPrice\<close> are all non-negative. The handler reads the
  clock once for the activation query and once more for \<open>daysRemaining\<close>; an activation
  that ends at the first reading, with the second reading more than half a day later, passes
  the check and gives \<open>daysRemaining = -1\<close> and a negative price.
\<close>

theorem getUpgrade_negative_quote:
  "fst (getUpgrade (14 * day) (14 * day + 43200001) \<lparr>userId = 1\<rparr>
          \<lparr>teamId = 1, planId = 3\<rparr> test_db)
     = Inr \<lparr>currentPlan = plus_plan, newPlan = premium_plan,
            daysRemaining = - 1, priceDifference = 140,
            upgradingPrice = - (5254199565265579 / 1125899906842624)\<rparr>"
proof -
  have days: "Math_round (js_div (js_sub 1209600000 1252800001) 86400000) = - 1"
    by (simp add: js_eval)
  have diff: "js_sub 199 59 = 140"
    by (simp add: js_eval)
  have price: "js_mul (js_div 140 30) (- 1) = - (5254199565265579 / 1125899906842624)"
    by (simp add: js_eval)
  show ?thesis
    by (simp add: getUpgrade_run test_db_simps days diff price)
qed

text \<open>
  C9, amended: whenever getUpgrade succeeds and the second reading of the clock is at most
  half a day (43200000 ms) after the first, as it is when both read the same instant,
  \<open>daysRemaining\<close>, \<open>priceDifference\<close> and \<open>upgradingPrice\<close> are all non-negative.
\<close>

theorem getUpgrade_outputs_nonneg:
  assumes "fst (getUpgrade now1 now2 user input s) = Inr q"
    and "now2 - now1 \<le> 43200000"
  shows "0 \<le> daysRemaining q \<and> 0 \<le> priceDifference q \<and> 0 \<le> upgradingPrice q"
proof -
  from getUpgrade_InrD [OF assms(1)] obtain act :: subscriptionActivation where
    price: "plan_monthlyPrice (currentPlan q) \<le> plan_monthlyPrice (newPlan q)"
    and diff: "priceDifference q
                 = js_sub (plan_monthlyPrice (newPlan q)) (plan_monthlyPrice (currentPlan q))"
    and up: "upgradingPrice q
               = js_mul (js_div (priceDifference q) 30) (of_int (daysRemaining q))"
    and act: "now1 \<le> activation_lastActiveDate act"
    and days: "daysRemaining q =
                 Math_round
                   (js_div (js_sub (of_int (activation_lastActiveDate act)) (of_int now2))
                      86400000)"
    by blast
  from act assms(2) have "- 43200000 \<le> activation_lastActiveDate act - now2"
    by simp
  then have d: "0 \<le> daysRemaining q"
    unfolding days by (rule days_nonneg)
  from price have p: "0 \<le> priceDifference q"
    unfolding diff js_sub_def by (intro fl_nonneg) simp
  then have "0 \<le> js_div (priceDifference q) 30"
    unfolding js_div_def by (intro fl_nonneg) simp
  with d have "0 \<le> upgradingPrice q"
    unfolding up js_mul_def by (intro fl_nonneg) simp
  with d p show ?thesis by simp
qed

text \<open>
  The quote of the test, with the clock read a second later for the computation.
\<close>

theorem getUpgrade_outputs_nonneg_witness:
  "fst (getUpgrade 0 1000 \<lparr>userId = 1\<rparr> \<lparr>teamId = 1, planId = 3\<rparr> test_db)
     = Inr \<lparr>currentPlan = plus_plan, newPlan = premium_plan,
            daysRemaining = 14, priceDifference = 140,
            upgradingPrice = 2298712309803691 / 35184372088832\<rparr>
   \<and> (1000 :: int) - 0 \<le> 43200000
   \<and> (0 :: int) \<le> daysRemaining \<lparr>currentPlan = plus_plan, newPlan = premium_plan,
            daysRemaining = 14, priceDifference = 140,
            upgradingPrice = 2298712309803691 / 35184372088832\<rparr>
   \<and> (0 :: real) \<le> priceDifference \<lparr>currentPlan = plus_plan, newPlan = premium_plan,
            daysRemaining = 14, priceDifference = 140,
            upgradingPrice = 2298712309803691 / 35184372088832\<rparr>
   \<and> (0 :: real) \<le> upgradingPrice \<lparr>currentPlan = plus_plan, newPlan = premium_plan,
            daysRemaining = 14, priceDifference = 140,
            upgradingPrice = 2298712309803691 / 35184372088832\<rparr>"
proof -
  have days: "Math_round (js_div (js_sub 1209600000 1000) 86400000) = 14"
    by (simp add: js_eval)
  have diff: "js_sub 199 59 = 140"
    by (simp add: js_eval)
  have price: "js_mul (js_div 140 30) 14 = 2298712309803691 / 35184372088832"
    by (simp add: js_eval)
  have r: "fst (getUpgrade 0 1000 \<lparr>userId = 1\<rparr> \<lparr>teamId = 1, planId = 3\<rparr> test_db)
     = Inr \<lparr>currentPlan = plus_plan, newPlan = premium_plan,
            daysRemaining = 14, priceDifference = 140,
            upgradingPrice = 2298712309803691 / 35184372088832\<rparr>"
    by (simp add: getUpgrade_run test_db_simps days diff price)
  have g: "(1000 :: int) - 0 \<le> 43200000"
    by simp
  from r g getUpgrade_outputs_nonneg [OF r g] show ?thesis
    by (intro conjI) simp_all
qed

section \<open>Listing the plans\<close>

text \<open>
  C6. get returns exactly the stored plan rows, in storage order, when the storage answers;
  when the storage fails it returns the empty list. It never throws, and it leaves the
  storage as it was.
\<close>

theorem get_never_throws:
  "get s = (Inr (if online s then plans s else []), s)"
  by (simp add: get_def try_catch_def await_def findMany_def resolve_def)

theorem get_never_throws_witness:
  "get test_db = (Inr [basic_plan, plus_plan, premium_plan], test_db)
   \<and> get (test_db\<lparr>online := False\<rparr>) = (Inr [], test_db\<lparr>online := False\<rparr>)"
  using get_never_throws [of test_db] get_never_throws [of "test_db\<lparr>online := False\<rparr>"]
  by (simp add: test_db_def)

section \<open>Writing plans\<close>



text \<open>
  C10. When no user record has the caller's user id, create and update fail with FORBIDDEN
  "Only admin allowed to access", as they do for a record without the administrator flag,
  and the storage is unchanged.
\<close>

theorem create_update_missing_user:
  assumes "online s"
    and "find (\<lambda>u. user_id u = userId user) (users s) = None"
    and "create_schema cin" and "update_schema uin"
  shows "create now newId user cin s
           = (Inl (trpcError FORBIDDEN ''Only admin allowed to access''), s)
       \<and> update now user uin s
           = (Inl (trpcError FORBIDDEN ''Only admin allowed to access''), s)"
  using assms by (simp add: write_run)

theorem create_update_missing_user_witness:
  "create 5 4 \<lparr>userId = 9\<rparr> \<lparr>name = ''Starter'', monthlyPrice = 19, yearlyPrice = 179\<rparr> test_db
     = (Inl (trpcError FORBIDDEN ''Only admin allowed to access''), test_db)
   \<and> update 5 \<lparr>userId = 9\<rparr>
        \<lparr>name = ''Starter'', monthlyPrice = 19, yearlyPrice = 179, id' = 2\<rparr> test_db
     = (Inl (trpcError FORBIDDEN ''Only admin allowed to access''), test_db)"
proof -
  have on: "online test_db"
    and nobody: "find (\<lambda>u. user_id u = userId \<lparr>userId = 9\<rparr>) (users test_db) = None"
    by (simp_all add: test_db_def)
  have cin: "create_schema \<lparr>name = ''Starter'', monthlyPrice = 19, yearlyPrice = 179\<rparr>"
    by (simp add: create_schema_def)
  have uin: "update_schema \<lparr>name = ''Starter'', monthlyPrice = 19, yearlyPrice = 179, id' = 2\<rparr>"
    by (simp add: update_schema_def)
  from create_update_missing_user [OF on nobody cin uin, of 5 4] show ?thesis .
qed

section \<open>Names of plans\<close>

text \<open>
  C7, as the spec has it: plan names are unique and non-empty; create only accepts a
  non-empty name. The schema of create is \<^verbatim>\<open>z.string()\<close> for the name: the empty string
  passes, and the administrator's create stores a row with the empty name.
\<close>

theorem create_empty_name:
  "create_schema \<lparr>name = '''', monthlyPrice = 0, yearlyPrice = 0\<rparr>
   \<and> create 5 4 \<lparr>userId = 1\<rparr> \<lparr>name = '''', monthlyPrice = 0, yearlyPrice = 0\<rparr> test_db
       = (Inr \<lparr>success = True\<rparr>,
          test_db\<lparr>plans :=
            [basic_plan, plus_plan, premium_plan,
             \<lparr>plan_id = 4, plan_name = '''', plan_monthlyPrice = 0, plan_yearlyPrice = 0,
              plan_createdAt = 5, plan_updatedAt = None\<rparr>]\<rparr>)"
  by (simp add: write_run create_schema_def test_db_def)

lemma create_on_unique_names:
  assumes "distinct (map plan_name (plans s))"
  shows "distinct (map plan_name
           (plans (snd (create_on insert_plans_unique now newId user input s))))"
  using assms
  by (simp add: create_on_def await_def findFirst_def insert_plans_unique_def
        throw_def resolve_def split: option.splits)

lemma update_on_unique_names:
  assumes "distinct (map plan_name (plans s))"
  shows "distinct (map plan_name
           (plans (snd (update_on update_plans_unique now user input s))))"
  using assms
  by (simp add: update_on_def await_def findFirst_def update_plans_unique_def
        throw_def resolve_def Let_def split: option.splits)

lemma run_writes_unique_names:
  "distinct (map plan_name (plans s)) \<Longrightarrow> distinct (map plan_name (plans (run_writes ws s)))"
proof (induction ws arbitrary: s)
  case Nil
  then show ?case by simp
next
  case (Cons w ws)
  show ?case
  proof (cases w)
    case (Create now newId user input)
    with Cons.prems show ?thesis
      by (simp add: Cons.IH create_on_unique_names)
  next
    case (Update now user input)
    with Cons.prems show ?thesis
      by (simp add: Cons.IH update_on_unique_names)
  qed
qed

text \<open>
  C7, amended: plan names are unique, and they may be empty. Create accepts every string as
  a name, the empty one included: on the plans table of spec 3, which keeps names unique, an
  administrator's create with a name that no stored row has appends the row with that name;
  and after any sequence of create and update operations on a table whose names are
  pairwise different, no two stored rows share a name.
\<close>

theorem plan_names_unique:
  assumes "distinct (map plan_name (plans s))"
  shows "distinct (map plan_name (plans (run_writes ws s)))
       \<and> (online s
           \<and> find (\<lambda>u. user_id u = userId user) (users s) = Some u \<and> user_isAdmin u
           \<and> 0 \<le> m \<and> 0 \<le> y
           \<and> n \<notin> set (map plan_name (plans s))
          \<longrightarrow> create_on insert_plans_unique now newId user
                \<lparr>name = n, monthlyPrice = m, yearlyPrice = y\<rparr> s
              = (Inr \<lparr>success = True\<rparr>,
                 s\<lparr>plans := plans s @
                    [\<lparr>plan_id = newId, plan_name = n, plan_monthlyPrice = m,
                      plan_yearlyPrice = y, plan_createdAt = now,
                      plan_updatedAt = None\<rparr>]\<rparr>))"
proof
  show "distinct (map plan_name (plans (run_writes ws s)))"
    using assms by (rule run_writes_unique_names)
next
  show "online s
           \<and> find (\<lambda>u. user_id u = userId user) (users s) = Some u \<and> user_isAdmin u
           \<and> 0 \<le> m \<and> 0 \<le> y
           \<and> n \<notin> set (map plan_name (plans s))
          \<longrightarrow> create_on insert_plans_unique now newId user
                \<lparr>name = n, monthlyPrice = m, yearlyPrice = y\<rparr> s
              = (Inr \<lparr>success = True\<rparr>,
                 s\<lparr>plans := plans s @
                    [\<lparr>plan_id = newId, plan_name = n, plan_monthlyPrice = m,
                      plan_yearlyPrice = y, plan_createdAt = now,
                      plan_updatedAt = None\<rparr>]\<rparr>)"
    by (simp add: create_on_def create_schema_def await_def findFirst_def
          insert_plans_unique_def throw_def resolve_def)
qed

text \<open>
  On the test storage: the administrator creates a plan with the empty name, then tries to
  create a second plan Plus and to rename Basic to Plus. The empty name is stored; the two
  writes that would repeat a name are refused by the table.
\<close>

theorem plan_names_unique_witness:
  "map plan_name
     (plans (run_writes
        [Create 5 4 \<lparr>userId = 1\<rparr> \<lparr>name = '''', monthlyPrice = 0, yearlyPrice = 0\<rparr>,
         Create 6 5 \<lparr>userId = 1\<rparr> \<lparr>name = ''Plus'', monthlyPrice = 0, yearlyPrice = 0\<rparr>,
         Update 7 \<lparr>userId = 1\<rparr>
           \<lparr>name = ''Plus'', monthlyPrice = 0, yearlyPrice = 0, id' = 1\<rparr>]
        test_db))
     = [''Basic'', ''Plus'', ''Premium'', '''']
   \<and> distinct [''Basic'', ''Plus'', ''Premium'', '''']
   \<and> create_on insert_plans_unique 5 4 \<lparr>userId = 1\<rparr>
        \<lparr>name = '''', monthlyPrice = 0, yearlyPrice = 0\<rparr> test_db
       = (Inr \<lparr>success = True\<rparr>,
          test_db\<lparr>plans :=
            [basic_plan, plus_plan, premium_plan,
             \<lparr>plan_id = 4, plan_name = '''', plan_monthlyPrice = 0, plan_yearlyPrice = 0,
              plan_createdAt = 5, plan_updatedAt = None\<rparr>]\<rparr>)"
proof -
  have d: "distinct (map plan_name (plans test_db))"
    by (simp add: test_db_simps)
  have names: "map plan_name
     (plans (run_writes
        [Create 5 4 \<lparr>userId = 1\<rparr> \<lparr>name = '''', monthlyPrice = 0, yearlyPrice = 0\<rparr>,
         Create 6 5 \<lparr>userId = 1\<rparr> \<lparr>name = ''Plus'', monthlyPrice = 0, yearlyPrice = 0\<rparr>,
         Update 7 \<lparr>userId = 1\<rparr>
           \<lparr>name = ''Plus'', monthlyPrice = 0, yearlyPrice = 0, id' = 1\<rparr>]
        test_db))
     = [''Basic'', ''Plus'', ''Premium'', '''']"
    by (simp add: create_on_def update_on_def create_schema_def update_schema_def
          await_def findFirst_def insert_plans_unique_def update_plans_unique_def
          throw_def resolve_def test_db_simps)
  note inst = plan_names_unique [OF d,
      of "[Create 5 4 \<lparr>userId = 1\<rparr> \<lparr>name = '''', monthlyPrice = 0, yearlyPrice = 0\<rparr>,
           Create 6 5 \<lparr>userId = 1\<rparr> \<lparr>name = ''Plus'', monthlyPrice = 0, yearlyPrice = 0\<rparr>,
           Update 7 \<lparr>userId = 1\<rparr>
             \<lparr>name = ''Plus'', monthlyPrice = 0, yearlyPrice = 0, id' = 1\<rparr>]"
         "\<lparr>userId = 1\<rparr>" "\<lparr>user_id = 1, user_isAdmin = True\<rparr>" 0 0 "''''" 5 4]
  from inst [THEN conjunct1] names
  have dist: "distinct [''Basic'', ''Plus'', ''Premium'', '''']"
    by simp
  from inst [THEN conjunct2]
  have empty: "create_on insert_plans_unique 5 4 \<lparr>userId = 1\<rparr>
        \<lparr>name = '''', monthlyPrice = 0, yearlyPrice = 0\<rparr> test_db
       = (Inr \<lparr>success = True\<rparr>,
          test_db\<lparr>plans :=
            [basic_plan, plus_plan, premium_plan,
             \<lparr>plan_id = 4, plan_name = '''', plan_monthlyPrice = 0, plan_yearlyPrice = 0,
              plan_createdAt = 5, plan_updatedAt = None\<rparr>]\<rparr>)"
    by (simp add: test_db_simps)
  from names dist empty show ?thesis
    by (intro conjI)
qed

end
